theory Spec2Isabelle
  imports Main "HOL-Library.Word" "HOL-Library.Sublist" "HOL-Library.Monad_Syntax"
begin

section \<open>Bytes and text\<close>

text \<open>
  The program is a single request handler, \<^verbatim>\<open>BinaryTestHandler\<close> in
  \<^verbatim>\<open>test-binary-server.py\<close>. Python \<^verbatim>\<open>bytes\<close> are lists of 8-bit words, Python
  \<^verbatim>\<open>str\<close> values are \<^typ>\<open>string\<close>. The request path reaches the handler decoded as
  ISO-8859-1, one character per byte, which is what \<^typ>\<open>char\<close> holds.
\<close>

type_synonym byte = "8 word"

text \<open>A bytes literal \<^verbatim>\<open>b"..."\<close> of ASCII text: every character becomes its code.\<close>

definition bytes_lit :: "string \<Rightarrow> byte list" where
  "bytes_lit s = map of_char s"

text \<open>\<^verbatim>\<open>str(n)\<close> on a non-negative integer: its decimal digits, most significant first.\<close>

fun str_nat :: "nat \<Rightarrow> string" where
  "str_nat n =
     (if n < 10 then [char_of (48 + n)]
      else str_nat (n div 10) @ [char_of (48 + n mod 10)])"

declare str_nat.simps [simp del]

text \<open>
  \<^verbatim>\<open>format % args\<close> for the directives \<^verbatim>\<open>%s\<close> and \<^verbatim>\<open>%%\<close> over string arguments.
  \<^const>\<open>None\<close> stands for the exception Python raises when the arguments run out or are
  left over; any other directive is outside the fragment and is an error here too.
\<close>

fun percent :: "string \<Rightarrow> string list \<Rightarrow> string option" where
  "percent [] [] = Some []"
| "percent [] (a # as) = None"
| "percent (c # fs) as =
     (if c = CHR ''%'' then
        (case fs of
           [] \<Rightarrow> None
         | d # fs' \<Rightarrow>
             if d = CHR ''s'' then
               (case as of
                  [] \<Rightarrow> None
                | a # as' \<Rightarrow> map_option ((@) a) (percent fs' as'))
             else if d = CHR ''%'' then map_option ((#) c) (percent fs' as)
             else None)
      else map_option ((#) c) (percent fs as))"

section \<open>The handler object and the inherited methods\<close>

text \<open>
  What goes out on the connection is kept as the sequence of protocol elements written,
  in order, instead of their serialisation: a status line, header lines, the blank line
  that ends the headers, and raw writes of body bytes.
\<close>

datatype event =
    StatusLine nat
  | Header string string
  | EndHeaders
  | Body "byte list"

text \<open>
  The fields of \<^verbatim>\<open>self\<close> that the handler reads and writes. \<open>path\<close> and \<open>requestline\<close>
  are set by the request parser. \<open>version_string\<close>, \<open>date_time_string\<close> and
  \<open>log_date_time_string\<close> hold what the methods of those names return while this request
  is served (the server banner and two renderings of the clock). \<open>wfile\<close> is the output
  stream of the connection and \<open>stdout\<close> the text printed so far.
\<close>

record handler =
  path :: string
  requestline :: string
  version_string :: string
  date_time_string :: string
  log_date_time_string :: string
  wfile :: "event list"
  stdout :: string

text \<open>\<^verbatim>\<open>print(text)\<close>: the text and a line feed go to standard output.\<close>

definition print :: "handler \<Rightarrow> string \<Rightarrow> handler" where
  "print self text = self\<lparr>stdout := stdout self @ text @ [CHR ''\<newline>'']\<rparr>"

text \<open>
  The override of the handler:
  \<^verbatim>\<open>print(f"[{self.log_date_time_string()}] {format % args}")\<close>
\<close>

definition log_message :: "handler \<Rightarrow> string \<Rightarrow> string list \<Rightarrow> handler option" where
  "log_message self format args =
     map_option (\<lambda>msg. print self (''['' @ log_date_time_string self @ ''] '' @ msg))
       (percent format args)"

text \<open>
  The methods below are inherited from \<^verbatim>\<open>BaseHTTPRequestHandler\<close> of the Python standard
  library, for a request of HTTP/1.0 or later. \<^verbatim>\<open>send_response(code)\<close> logs the request
  through \<^verbatim>\<open>log_request\<close>, which calls \<^verbatim>\<open>log_message\<close> with the request line, the code
  and \<^verbatim>\<open>'-'\<close> for the size, then emits the status line and the \<^verbatim>\<open>Server\<close> and
  \<^verbatim>\<open>Date\<close> headers. The library buffers the header block until \<^verbatim>\<open>end_headers\<close>; the
  order of what reaches the stream is the order of the calls, which is what is recorded.
\<close>

definition send_header :: "handler \<Rightarrow> string \<Rightarrow> string \<Rightarrow> handler" where
  "send_header self keyword val = self\<lparr>wfile := wfile self @ [Header keyword val]\<rparr>"

definition end_headers :: "handler \<Rightarrow> handler" where
  "end_headers self = self\<lparr>wfile := wfile self @ [EndHeaders]\<rparr>"

definition wfile_write :: "handler \<Rightarrow> byte list \<Rightarrow> handler" where
  "wfile_write self data = self\<lparr>wfile := wfile self @ [Body data]\<rparr>"

definition log_request :: "handler \<Rightarrow> nat \<Rightarrow> handler option" where
  \<open>log_request self code =
     log_message self ''"%s" %s %s'' [requestline self, str_nat code, ''-'']\<close>

definition send_response_only :: "handler \<Rightarrow> nat \<Rightarrow> handler" where
  "send_response_only self code = self\<lparr>wfile := wfile self @ [StatusLine code]\<rparr>"

definition send_response :: "handler \<Rightarrow> nat \<Rightarrow> handler option" where
  "send_response self code = do {
     s \<leftarrow> log_request self code;
     let s = send_response_only s code;
     let s = send_header s ''Server'' (version_string s);
     Some (send_header s ''Date'' (date_time_string s))
   }"

section \<open>The payloads\<close>

text \<open>The literals of \<^verbatim>\<open>do_GET\<close>, byte for byte and line for line.\<close>

definition png_data :: "byte list" where
  "png_data =
    [0x89, 0x50, 0x4E, 0x47, 0x0D, 0x0A, 0x1A, 0x0A,
     0x00, 0x00, 0x00, 0x0D, 0x49, 0x48, 0x44, 0x52,
     0x00, 0x00, 0x00, 0x01, 0x00, 0x00, 0x00, 0x01,
     0x08, 0x02, 0x00, 0x00, 0x00, 0x90, 0x77, 0x53,
     0xDE, 0x00, 0x00, 0x00, 0x0C, 0x49, 0x44, 0x41,
     0x54, 0x08, 0xD7, 0x63, 0xF8, 0xCF, 0xC0, 0x00,
     0x00, 0x03, 0x01, 0x01, 0x00, 0x18, 0xDD, 0x8D,
     0xB4, 0x00, 0x00, 0x00, 0x00, 0x49, 0x45, 0x4E,
     0x44, 0xAE, 0x42, 0x60, 0x82]"

definition jpeg_data :: "byte list" where
  "jpeg_data =
    [0xFF, 0xD8, 0xFF, 0xE0, 0x00, 0x10, 0x4A, 0x46,
     0x49, 0x46, 0x00, 0x01, 0x01, 0x00, 0x00, 0x01,
     0x00, 0x01, 0x00, 0x00, 0xFF, 0xDB, 0x00, 0x43,
     0x00, 0x08, 0x06, 0x06, 0x07, 0x06, 0x05, 0x08,
     0x07, 0x07, 0x07, 0x09, 0x09, 0x08, 0x0A, 0x0C,
     0x14, 0x0D, 0x0C, 0x0B, 0x0B, 0x0C, 0x19, 0x12,
     0x13, 0x0F, 0x14, 0x1D, 0x1A, 0x1F, 0x1E, 0x1D,
     0x1A, 0x1C, 0x1C, 0x20, 0x24, 0x2E, 0x27, 0x20,
     0x22, 0x2C, 0x23, 0x1C, 0x1C, 0x28, 0x37, 0x29,
     0x2C, 0x30, 0x31, 0x34, 0x34, 0x34, 0x1F, 0x27,
     0x39, 0x3D, 0x38, 0x32, 0x3C, 0x2E, 0x33, 0x34,
     0x32, 0xFF, 0xC0, 0x00, 0x0B, 0x08, 0x00, 0x01,
     0x00, 0x01, 0x01, 0x01, 0x11, 0x00, 0xFF, 0xC4,
     0x00, 0x14, 0x00, 0x01, 0x00, 0x00, 0x00, 0x00,
     0x00, 0x00, 0x00, 0x00, 0x00, 0x00, 0x00, 0x00,
     0x00, 0x00, 0x00, 0x03, 0xFF, 0xC4, 0x00, 0x14,
     0x10, 0x01, 0x00, 0x00, 0x00, 0x00, 0x00, 0x00,
     0x00, 0x00, 0x00, 0x00, 0x00, 0x00, 0x00, 0x00,
     0x00, 0x00, 0xFF, 0xDA, 0x00, 0x08, 0x01, 0x01,
     0x00, 0x00, 0x3F, 0x00, 0x3F, 0x00, 0xFF, 0xD9]"

definition pdf_data :: "byte list" where
  \<open>pdf_data = bytes_lit
     (''%PDF-1.4\<newline>'' @
      ''1 0 obj<</Type/Catalog/Pages 2 0 R>>endobj\<newline>'' @
      ''2 0 obj<</Type/Pages/Count 1/Kids[3 0 R]>>endobj\<newline>'' @
      ''3 0 obj<</Type/Page/MediaBox[0 0 612 792]/Parent 2 0 R/Resources<<>>>>endobj\<newline>'' @
      ''xref\<newline>'' @
      ''0 4\<newline>'' @
      ''0000000000 65535 f\<newline>'' @
      ''0000000009 00000 n\<newline>'' @
      ''0000000052 00000 n\<newline>'' @
      ''0000000101 00000 n\<newline>'' @
      ''trailer<</Size 4/Root 1 0 R>>\<newline>'' @
      ''startxref\<newline>'' @
      ''185\<newline>'' @
      ''%%EOF'')\<close>

definition zip_data :: "byte list" where
  "zip_data =
    [0x50, 0x4B, 0x05, 0x06, 0x00, 0x00, 0x00, 0x00,
     0x00, 0x00, 0x00, 0x00, 0x00, 0x00, 0x00, 0x00,
     0x00, 0x00, 0x00, 0x00, 0x00, 0x00]"

definition html :: "byte list" where
  \<open>html = bytes_lit
     (''<!DOCTYPE html>\<newline>'' @
      ''<html>\<newline>'' @
      ''<head><title>Binary Test Server</title></head>\<newline>'' @
      ''<body>\<newline>'' @
      ''    <h1>Binary Content Test Server</h1>\<newline>'' @
      ''    <p>Test the following binary endpoints:</p>\<newline>'' @
      ''    <ul>\<newline>'' @
      ''        <li><a href="/image.png">PNG Image</a> (image/png)</li>\<newline>'' @
      ''        <li><a href="/image.jpg">JPEG Image</a> (image/jpeg)</li>\<newline>'' @
      ''        <li><a href="/document.pdf">PDF Document</a> (application/pdf)</li>\<newline>'' @
      ''        <li><a href="/archive.zip">ZIP Archive</a> (application/zip)</li>\<newline>'' @
      ''    </ul>\<newline>'' @
      ''    <p>Each endpoint will return a minimal valid binary file of that type.</p>\<newline>'' @
      ''</body>\<newline>'' @
      ''</html>'')\<close>

section \<open>The request handler\<close>

text \<open>
  \<^verbatim>\<open>do_GET\<close>: a chain of string comparisons on \<^verbatim>\<open>self.path\<close>, each branch sending a
  status, its headers, the end of the headers and one write of the body. An exception
  raised on the way leaves the method, which is the value \<^const>\<open>None\<close>.
\<close>

definition do_GET :: "handler \<Rightarrow> handler option" where
  "do_GET self =
     (if path self = ''/image.png'' then do {
        s \<leftarrow> send_response self 200;
        let s = send_header s ''Content-Type'' ''image/png'';
        let s = send_header s ''Content-Length'' (str_nat (length png_data));
        let s = end_headers s;
        Some (wfile_write s png_data)
      }
      else if path self = ''/image.jpg'' then do {
        s \<leftarrow> send_response self 200;
        let s = send_header s ''Content-Type'' ''image/jpeg'';
        let s = send_header s ''Content-Length'' (str_nat (length jpeg_data));
        let s = end_headers s;
        Some (wfile_write s jpeg_data)
      }
      else if path self = ''/document.pdf'' then do {
        s \<leftarrow> send_response self 200;
        let s = send_header s ''Content-Type'' ''application/pdf'';
        let s = send_header s ''Content-Length'' (str_nat (length pdf_data));
        let s = end_headers s;
        Some (wfile_write s pdf_data)
      }
      else if path self = ''/archive.zip'' then do {
        s \<leftarrow> send_response self 200;
        let s = send_header s ''Content-Type'' ''application/zip'';
        let s = send_header s ''Content-Length'' (str_nat (length zip_data));
        let s = end_headers s;
        Some (wfile_write s zip_data)
      }
      else if path self = ''/'' then do {
        s \<leftarrow> send_response self 200;
        let s = send_header s ''Content-Type'' ''text/html; charset=utf-8'';
        let s = send_header s ''Content-Length'' (str_nat (length html));
        let s = end_headers s;
        Some (wfile_write s html)
      }
      else do {
        s \<leftarrow> send_response self 404;
        let s = send_header s ''Content-Type'' ''text/plain'';
        let s = end_headers s;
        Some (wfile_write s (bytes_lit ''404 Not Found''))
      })"

section \<open>Reading a response\<close>

text \<open>The status codes, the values of a header and the body bytes of what was written.\<close>

fun status_codes :: "event list \<Rightarrow> nat list" where
  "status_codes [] = []"
| "status_codes (StatusLine c # es) = c # status_codes es"
| "status_codes (e # es) = status_codes es"

fun header_values :: "string \<Rightarrow> event list \<Rightarrow> string list" where
  "header_values k [] = []"
| "header_values k (Header k' v # es) =
     (if k' = k then v # header_values k es else header_values k es)"
| "header_values k (e # es) = header_values k es"

fun body_bytes :: "event list \<Rightarrow> byte list" where
  "body_bytes [] = []"
| "body_bytes (Body d # es) = d @ body_bytes es"
| "body_bytes (e # es) = body_bytes es"

text \<open>A handler for one request on a fresh connection, used to run the model.\<close>

definition request_for :: "string \<Rightarrow> handler" where
  \<open>request_for p =
     \<lparr>path = p, requestline = ''GET '' @ p @ '' HTTP/1.1'',
      version_string = ''BaseHTTP/0.6 Python/3.11.4'',
      date_time_string = ''Wed, 04 Nov 2026 16:20:00 GMT'',
      log_date_time_string = ''04/Nov/2026 16:20:00'',
      wfile = [], stdout = []\<rparr>\<close>

section \<open>Notions used to state the properties\<close>

text \<open>
  The line that one request contributes to standard output, and the handler after a complete
  reply with status \<open>code\<close>, the headers \<open>hs\<close> of the branch and the body \<open>data\<close>.
\<close>

definition log_line :: "handler \<Rightarrow> nat \<Rightarrow> string" where
  \<open>log_line self code =
     ''['' @ log_date_time_string self @ ''] "'' @ requestline self @ ''" '' @
     str_nat code @ '' -''\<close>

definition reply :: "handler \<Rightarrow> nat \<Rightarrow> (string \<times> string) list \<Rightarrow> byte list \<Rightarrow> handler" where
  "reply self code hs data =
     self\<lparr>wfile := wfile self @
              [StatusLine code, Header ''Server'' (version_string self),
               Header ''Date'' (date_time_string self)] @
              map (\<lambda>(k, v). Header k v) hs @ [EndHeaders, Body data],
          stdout := stdout self @ log_line self code @ [CHR ''\<newline>'']\<rparr>"

text \<open>\<^verbatim>\<open>int(s)\<close> on a string of decimal digits, to read a Content-Length back.\<close>

definition int_str :: "string \<Rightarrow> nat" where
  "int_str s = foldl (\<lambda>a c. 10 * a + (of_char c - 48)) 0 s"

text \<open>
  A PNG datastream is the eight signature bytes followed by chunks. A chunk is a
  big-endian 32-bit length, four type bytes, that many data bytes, and the CRC-32 of
  type and data as a big-endian 32-bit integer.
\<close>

definition png_signature :: "byte list" where
  "png_signature = [0x89, 0x50, 0x4E, 0x47, 0x0D, 0x0A, 0x1A, 0x0A]"

definition be32 :: "byte list \<Rightarrow> nat" where
  "be32 bs = foldl (\<lambda>a b. 256 * a + unat b) 0 bs"

text \<open>
  CRC-32 as PNG uses it: register preset to all ones, the reflected polynomial
  EDB88320, one shift per bit, least significant bit first, and the result complemented.
\<close>

unbundle bit_operations_syntax

definition crc_shift :: "32 word \<Rightarrow> 32 word" where
  "crc_shift c = (if bit c 0 then drop_bit 1 c XOR 0xEDB88320 else drop_bit 1 c)"

definition crc_byte :: "32 word \<Rightarrow> byte \<Rightarrow> 32 word" where
  "crc_byte c b =
     crc_shift (crc_shift (crc_shift (crc_shift (crc_shift (crc_shift (crc_shift (crc_shift
       (c XOR ucast b))))))))"

definition crc32 :: "byte list \<Rightarrow> 32 word" where
  "crc32 bs = foldl crc_byte 0xFFFFFFFF bs XOR 0xFFFFFFFF"

text \<open>
  The chunks of what follows the signature: type, data, and whether the stored CRC is the
  CRC-32 of type and data. \<^const>\<open>None\<close> when the bytes end inside a chunk.
\<close>

function png_chunks :: "byte list \<Rightarrow> (byte list \<times> byte list \<times> bool) list option" where
  "png_chunks bs =
     (if bs = [] then Some []
      else if length bs < 12 + be32 (take 4 bs) then None
      else
        (let n = be32 (take 4 bs);
             ty = take 4 (drop 4 bs);
             d = take n (drop 8 bs);
             ok = (unat (crc32 (ty @ d)) = be32 (take 4 (drop (8 + n) bs)))
         in map_option ((#) (ty, d, ok)) (png_chunks (drop (12 + n) bs))))"
  by pat_completeness auto
termination
  by (relation "measure length") auto

declare png_chunks.simps [simp del]

text \<open>
  The width and height that a PNG datastream declares, after the checks a decoder makes
  before it looks at the pixels: the signature, a chunk sequence that starts with a
  13-byte IHDR, holds an IDAT and ends with IEND, and a right CRC on every chunk.
  \<^const>\<open>None\<close> when one of them fails. Inflating the IDAT data is not part of it.
\<close>

definition png_image_size :: "byte list \<Rightarrow> (nat \<times> nat) option" where
  "png_image_size bs =
     (if take 8 bs \<noteq> png_signature then None
      else case png_chunks (drop 8 bs) of
        None \<Rightarrow> None
      | Some cs \<Rightarrow>
          if cs \<noteq> [] \<and> list_all (\<lambda>(ty, d, ok). ok) cs \<and>
             fst (hd cs) = bytes_lit ''IHDR'' \<and> length (fst (snd (hd cs))) = 13 \<and>
             bytes_lit ''IDAT'' \<in> set (map fst cs) \<and>
             fst (last cs) = bytes_lit ''IEND''
          then Some (be32 (take 4 (fst (snd (hd cs)))),
                     be32 (take 4 (drop 4 (fst (snd (hd cs))))))
          else None)"

section \<open>Running the handler\<close>

lemma log_request_run:
  "log_request self code = Some (print self (log_line self code))"
  by (simp add: log_request_def log_message_def log_line_def)

lemma send_response_run:
  "send_response self code =
     Some (self\<lparr>wfile := wfile self @
                   [StatusLine code, Header ''Server'' (version_string self),
                    Header ''Date'' (date_time_string self)],
               stdout := stdout self @ log_line self code @ [CHR ''\<newline>'']\<rparr>)"
  by (simp add: send_response_def log_request_run print_def send_response_only_def
      send_header_def Let_def)

lemma do_GET_run:
  "do_GET self = Some
     (if path self = ''/image.png'' then
        reply self 200 [(''Content-Type'', ''image/png''),
                        (''Content-Length'', str_nat (length png_data))] png_data
      else if path self = ''/image.jpg'' then
        reply self 200 [(''Content-Type'', ''image/jpeg''),
                        (''Content-Length'', str_nat (length jpeg_data))] jpeg_data
      else if path self = ''/document.pdf'' then
        reply self 200 [(''Content-Type'', ''application/pdf''),
                        (''Content-Length'', str_nat (length pdf_data))] pdf_data
      else if path self = ''/archive.zip'' then
        reply self 200 [(''Content-Type'', ''application/zip''),
                        (''Content-Length'', str_nat (length zip_data))] zip_data
      else if path self = ''/'' then
        reply self 200 [(''Content-Type'', ''text/html; charset=utf-8''),
                        (''Content-Length'', str_nat (length html))] html
      else
        reply self 404 [(''Content-Type'', ''text/plain'')] (bytes_lit ''404 Not Found''))"
  by (simp add: do_GET_def send_response_run send_header_def end_headers_def
      wfile_write_def reply_def Let_def)

lemma wfile_reply:
  "wfile (reply self code hs d) =
     wfile self @ StatusLine code # Header ''Server'' (version_string self) #
       Header ''Date'' (date_time_string self) #
       map (\<lambda>(k, v). Header k v) hs @ [EndHeaders, Body d]"
  by (simp add: reply_def)

lemma stdout_reply:
  "stdout (reply self code hs d) = stdout self @ log_line self code @ [CHR ''\<newline>'']"
  by (simp add: reply_def)

lemma length_png_data: "length png_data = 69"
  by (simp add: png_data_def)

lemma length_jpeg_data: "length jpeg_data = 160"
  by (simp add: jpeg_data_def)

lemma length_pdf_data: "length pdf_data = 312"
  by (simp add: pdf_data_def bytes_lit_def)

lemma length_zip_data: "length zip_data = 22"
  by (simp add: zip_data_def)

lemma length_html: "length html = 558"
  by (simp add: html_def bytes_lit_def)

lemma str_nat_200: "str_nat 200 = ''200''"
  by code_simp

lemma str_nat_404: "str_nat 404 = ''404''"
  by code_simp

lemma int_str_snoc: "int_str (s @ [c]) = 10 * int_str s + (of_char c - 48)"
  by (simp add: int_str_def)

lemma int_str_str_nat: "int_str (str_nat n) = n"
proof (induction n rule: str_nat.induct)
  case (1 n)
  show ?case
  proof (cases "n < 10")
    case True
    then show ?thesis
      by (subst str_nat.simps) (simp add: int_str_def)
  next
    case False
    have "int_str (str_nat n) = 10 * int_str (str_nat (n div 10)) + n mod 10"
      using False by (subst str_nat.simps) (simp add: int_str_snoc)
    with False "1.IH" show ?thesis
      by simp
  qed
qed

lemma content_length_values:
  "str_nat (length png_data) = ''69''"
  "str_nat (length jpeg_data) = ''160''"
  "str_nat (length pdf_data) = ''312''"
  "str_nat (length zip_data) = ''22''"
  "str_nat (length html) = ''558''"
  unfolding length_png_data length_jpeg_data length_pdf_data length_zip_data length_html
  by code_simp+

lemma sublist_at: "take (length xs) (drop i ys) = xs \<Longrightarrow> sublist xs ys"
proof -
  assume h: "take (length xs) (drop i ys) = xs"
  have "ys = take i ys @ drop i ys"
    by simp
  also have "drop i ys = take (length xs) (drop i ys) @ drop (length xs) (drop i ys)"
    by (simp only: append_take_drop_id)
  finally have "ys = take i ys @ xs @ drop (length xs) (drop i ys)"
    by (simp only: h)
  then show ?thesis
    unfolding sublist_def by blast
qed

section \<open>The binary endpoints\<close>

text \<open>
  C1. A GET whose path is one of /image.png, /image.jpg, /document.pdf and /archive.zip
  is answered with status 200, the Content-Type of that entry (image/png, image/jpeg,
  application/pdf, application/zip), a Content-Length header that is the decimal length
  of the body, and a body that is the stored payload, unchanged.
\<close>

theorem binary_endpoints_200:
  assumes "wfile self = []"
    and "(path self, mime, payload) \<in> set
           [(''/image.png'', ''image/png'', png_data),
            (''/image.jpg'', ''image/jpeg'', jpeg_data),
            (''/document.pdf'', ''application/pdf'', pdf_data),
            (''/archive.zip'', ''application/zip'', zip_data)]"
  shows "\<exists>r. do_GET self = Some r \<and>
           status_codes (wfile r) = [200] \<and>
           header_values ''Content-Type'' (wfile r) = [mime] \<and>
           header_values ''Content-Length'' (wfile r) =
             [str_nat (length (body_bytes (wfile r)))] \<and>
           map int_str (header_values ''Content-Length'' (wfile r)) =
             [length (body_bytes (wfile r))] \<and>
           body_bytes (wfile r) = payload"
  using assms by (auto simp add: do_GET_run wfile_reply int_str_str_nat)

theorem binary_endpoints_200_witness:
  "wfile (request_for ''/document.pdf'') = [] \<and>
   (path (request_for ''/document.pdf''), ''application/pdf'', pdf_data) \<in> set
           [(''/image.png'', ''image/png'', png_data),
            (''/image.jpg'', ''image/jpeg'', jpeg_data),
            (''/document.pdf'', ''application/pdf'', pdf_data),
            (''/archive.zip'', ''application/zip'', zip_data)] \<and>
   (\<exists>r. do_GET (request_for ''/document.pdf'') = Some r \<and>
           status_codes (wfile r) = [200] \<and>
           header_values ''Content-Type'' (wfile r) = [''application/pdf''] \<and>
           header_values ''Content-Length'' (wfile r) =
             [str_nat (length (body_bytes (wfile r)))] \<and>
           map int_str (header_values ''Content-Length'' (wfile r)) =
             [length (body_bytes (wfile r))] \<and>
           body_bytes (wfile r) = pdf_data)"
  using binary_endpoints_200 [of "request_for ''/document.pdf''" "''application/pdf''" pdf_data]
  by (simp add: request_for_def)

section \<open>Unmapped paths\<close>

text \<open>
  C2. A GET whose path is none of /, /image.png, /image.jpg, /document.pdf and
  /archive.zip is answered with status 404, Content-Type text/plain and a body that is
  the 13 ASCII bytes of "404 Not Found".
\<close>

theorem unmapped_path_404:
  assumes "wfile self = []"
    and "path self \<notin>
           {''/'', ''/image.png'', ''/image.jpg'', ''/document.pdf'', ''/archive.zip''}"
  shows "\<exists>r. do_GET self = Some r \<and>
           status_codes (wfile r) = [404] \<and>
           header_values ''Content-Type'' (wfile r) = [''text/plain''] \<and>
           body_bytes (wfile r) = bytes_lit ''404 Not Found'' \<and>
           body_bytes (wfile r) =
             [0x34, 0x30, 0x34, 0x20, 0x4E, 0x6F, 0x74, 0x20, 0x46, 0x6F, 0x75, 0x6E, 0x64] \<and>
           length (body_bytes (wfile r)) = 13"
  using assms by (simp add: do_GET_run wfile_reply bytes_lit_def)

theorem unmapped_path_404_witness:
  "wfile (request_for ''/nonexistent'') = [] \<and>
   path (request_for ''/nonexistent'') \<notin>
     {''/'', ''/image.png'', ''/image.jpg'', ''/document.pdf'', ''/archive.zip''} \<and>
   (\<exists>r. do_GET (request_for ''/nonexistent'') = Some r \<and>
           status_codes (wfile r) = [404] \<and>
           header_values ''Content-Type'' (wfile r) = [''text/plain''] \<and>
           body_bytes (wfile r) = bytes_lit ''404 Not Found'' \<and>
           body_bytes (wfile r) =
             [0x34, 0x30, 0x34, 0x20, 0x4E, 0x6F, 0x74, 0x20, 0x46, 0x6F, 0x75, 0x6E, 0x64] \<and>
           length (body_bytes (wfile r)) = 13)"
  using unmapped_path_404 [of "request_for ''/nonexistent''"]
  by (simp add: request_for_def)

section \<open>Determinism\<close>

text \<open>
  C3. Two GET requests with the same path get the same body, byte for byte, whatever
  else differs between them (request line, clock, what was printed before).
\<close>

theorem same_path_same_body:
  assumes "wfile s1 = []" and "wfile s2 = []" and "path s1 = path s2"
  shows "\<exists>r1 r2. do_GET s1 = Some r1 \<and> do_GET s2 = Some r2 \<and>
           body_bytes (wfile r1) = body_bytes (wfile r2)"
  using assms by (simp add: do_GET_run wfile_reply)

theorem same_path_same_body_witness:
  "wfile (request_for ''/image.jpg'') = [] \<and>
   wfile ((request_for ''/image.jpg'')
            \<lparr>requestline := ''GET /image.jpg HTTP/1.0'',
             log_date_time_string := ''05/Nov/2026 09:00:00'', stdout := ''earlier''\<rparr>) = [] \<and>
   path (request_for ''/image.jpg'') =
     path ((request_for ''/image.jpg'')
            \<lparr>requestline := ''GET /image.jpg HTTP/1.0'',
             log_date_time_string := ''05/Nov/2026 09:00:00'', stdout := ''earlier''\<rparr>) \<and>
   (\<exists>r1 r2. do_GET (request_for ''/image.jpg'') = Some r1 \<and>
      do_GET ((request_for ''/image.jpg'')
            \<lparr>requestline := ''GET /image.jpg HTTP/1.0'',
             log_date_time_string := ''05/Nov/2026 09:00:00'', stdout := ''earlier''\<rparr>) = Some r2 \<and>
      body_bytes (wfile r1) = body_bytes (wfile r2))"
  using same_path_same_body [of "request_for ''/image.jpg''"
      "(request_for ''/image.jpg'')
            \<lparr>requestline := ''GET /image.jpg HTTP/1.0'',
             log_date_time_string := ''05/Nov/2026 09:00:00'', stdout := ''earlier''\<rparr>"]
  by (simp add: request_for_def)

section \<open>The ZIP and PNG payloads\<close>

text \<open>
  C4. The body of the reply to GET /archive.zip is 22 bytes long and starts with
  50 4B 05 06, the signature of the end-of-central-directory record.
\<close>

theorem zip_body:
  assumes "wfile self = []" and "path self = ''/archive.zip''"
  shows "\<exists>r. do_GET self = Some r \<and>
           length (body_bytes (wfile r)) = 22 \<and>
           take 4 (body_bytes (wfile r)) = [0x50, 0x4B, 0x05, 0x06]"
  using assms by (simp add: do_GET_run wfile_reply zip_data_def)

theorem zip_body_witness:
  "wfile (request_for ''/archive.zip'') = [] \<and>
   path (request_for ''/archive.zip'') = ''/archive.zip'' \<and>
   (\<exists>r. do_GET (request_for ''/archive.zip'') = Some r \<and>
           length (body_bytes (wfile r)) = 22 \<and>
           take 4 (body_bytes (wfile r)) = [0x50, 0x4B, 0x05, 0x06])"
  using zip_body [of "request_for ''/archive.zip''"]
  by (simp add: request_for_def)

lemma png_chunks_png_data:
  "png_chunks (drop 8 png_data) =
     Some [(bytes_lit ''IHDR'', [0, 0, 0, 1, 0, 0, 0, 1, 8, 2, 0, 0, 0], True),
           (bytes_lit ''IDAT'',
            [0x08, 0xD7, 0x63, 0xF8, 0xCF, 0xC0, 0x00, 0x00, 0x03, 0x01, 0x01, 0x00], False),
           (bytes_lit ''IEND'', [], True)]"
  by (simp add: png_chunks.simps png_data_def be32_def crc32_def crc_byte_def crc_shift_def
      bytes_lit_def)

lemma png_chunks_png_data_repaired:
  "png_chunks (drop 8 (png_data[56 := 0xB0])) =
     Some [(bytes_lit ''IHDR'', [0, 0, 0, 1, 0, 0, 0, 1, 8, 2, 0, 0, 0], True),
           (bytes_lit ''IDAT'',
            [0x08, 0xD7, 0x63, 0xF8, 0xCF, 0xC0, 0x00, 0x00, 0x03, 0x01, 0x01, 0x00], True),
           (bytes_lit ''IEND'', [], True)]"
  by (simp add: png_chunks.simps png_data_def be32_def crc32_def crc_byte_def crc_shift_def
      bytes_lit_def)

lemma idat_crc_stored: "take 4 (drop 53 png_data) = [0x18, 0xDD, 0x8D, 0xB4]"
  by (simp add: png_data_def)

lemma idat_crc_computed: "crc32 (take 16 (drop 37 png_data)) = 0x18DD8DB0"
  by (simp add: png_data_def crc32_def crc_byte_def crc_shift_def)

lemma png_image_size_png_data: "png_image_size png_data = None"
  by (simp add: png_image_size_def png_chunks_png_data)

lemma png_image_size_repaired: "png_image_size (png_data[56 := 0xB0]) = Some (1, 1)"
  by (simp add: png_image_size_def png_chunks_png_data_repaired png_signature_def be32_def
      bytes_lit_def) (simp add: png_data_def)

text \<open>
  C5. The body of the reply to GET /image.png is 69 bytes long and starts with the PNG
  signature 89 50 4E 47 0D 0A 1A 0A; its chunks are IHDR, declaring width 1 and height 1,
  IDAT and IEND. It does not encode a PNG image as it stands: the CRC stored with the
  IDAT chunk is 18 DD 8D B4, and the CRC-32 of that chunk is 18 DD 8D B0. With byte 56
  set to B0 the datastream passes the checks and declares a 1x1 image.
\<close>

theorem png_body_idat_crc:
  "\<exists>r. do_GET (request_for ''/image.png'') = Some r \<and>
     length (body_bytes (wfile r)) = 69 \<and>
     take 8 (body_bytes (wfile r)) = [0x89, 0x50, 0x4E, 0x47, 0x0D, 0x0A, 0x1A, 0x0A] \<and>
     png_chunks (drop 8 (body_bytes (wfile r))) =
       Some [(bytes_lit ''IHDR'', [0, 0, 0, 1, 0, 0, 0, 1, 8, 2, 0, 0, 0], True),
             (bytes_lit ''IDAT'',
              [0x08, 0xD7, 0x63, 0xF8, 0xCF, 0xC0, 0x00, 0x00, 0x03, 0x01, 0x01, 0x00], False),
             (bytes_lit ''IEND'', [], True)] \<and>
     take 4 (drop 53 (body_bytes (wfile r))) = [0x18, 0xDD, 0x8D, 0xB4] \<and>
     crc32 (take 16 (drop 37 (body_bytes (wfile r)))) = 0x18DD8DB0 \<and>
     png_image_size (body_bytes (wfile r)) = None \<and>
     png_image_size ((body_bytes (wfile r))[56 := 0xB0]) = Some (1, 1)"
proof -
  have "do_GET (request_for ''/image.png'') =
      Some (reply (request_for ''/image.png'') 200
        [(''Content-Type'', ''image/png''),
         (''Content-Length'', str_nat (length png_data))] png_data)"
    by (simp add: do_GET_run request_for_def)
  moreover have "body_bytes (wfile (reply (request_for ''/image.png'') 200
        [(''Content-Type'', ''image/png''),
         (''Content-Length'', str_nat (length png_data))] png_data)) = png_data"
    by (simp add: wfile_reply request_for_def)
  moreover have "take 8 png_data = [0x89, 0x50, 0x4E, 0x47, 0x0D, 0x0A, 0x1A, 0x0A]"
    by (simp add: png_data_def)
  ultimately show ?thesis
    using length_png_data png_chunks_png_data idat_crc_stored idat_crc_computed
      png_image_size_png_data png_image_size_repaired
    by simp
qed

section \<open>The index page\<close>

lemma html_mentions_png: "sublist (bytes_lit ''/image.png'') html"
  by (rule sublist_at [where i = 195]) (simp add: html_def bytes_lit_def)

lemma html_mentions_jpg: "sublist (bytes_lit ''/image.jpg'') html"
  by (rule sublist_at [where i = 259]) (simp add: html_def bytes_lit_def)

lemma html_mentions_pdf: "sublist (bytes_lit ''/document.pdf'') html"
  by (rule sublist_at [where i = 325]) (simp add: html_def bytes_lit_def)

lemma html_mentions_zip: "sublist (bytes_lit ''/archive.zip'') html"
  by (rule sublist_at [where i = 401]) (simp add: html_def bytes_lit_def)

text \<open>
  C6. A GET with path "/" is answered with status 200, Content-Type
  "text/html; charset=utf-8", and a body in which each of "/image.png", "/image.jpg",
  "/document.pdf" and "/archive.zip" occurs as a contiguous substring.
\<close>

theorem index_page:
  assumes "wfile self = []" and "path self = ''/''"
  shows "\<exists>r. do_GET self = Some r \<and>
           status_codes (wfile r) = [200] \<and>
           header_values ''Content-Type'' (wfile r) = [''text/html; charset=utf-8''] \<and>
           sublist (bytes_lit ''/image.png'') (body_bytes (wfile r)) \<and>
           sublist (bytes_lit ''/image.jpg'') (body_bytes (wfile r)) \<and>
           sublist (bytes_lit ''/document.pdf'') (body_bytes (wfile r)) \<and>
           sublist (bytes_lit ''/archive.zip'') (body_bytes (wfile r))"
  using assms html_mentions_png html_mentions_jpg html_mentions_pdf html_mentions_zip
  by (simp add: do_GET_run wfile_reply)

theorem index_page_witness:
  "wfile (request_for ''/'') = [] \<and> path (request_for ''/'') = ''/'' \<and>
   (\<exists>r. do_GET (request_for ''/'') = Some r \<and>
           status_codes (wfile r) = [200] \<and>
           header_values ''Content-Type'' (wfile r) = [''text/html; charset=utf-8''] \<and>
           sublist (bytes_lit ''/image.png'') (body_bytes (wfile r)) \<and>
           sublist (bytes_lit ''/image.jpg'') (body_bytes (wfile r)) \<and>
           sublist (bytes_lit ''/document.pdf'') (body_bytes (wfile r)) \<and>
           sublist (bytes_lit ''/archive.zip'') (body_bytes (wfile r)))"
  using index_page [of "request_for ''/''"]
  by (simp add: request_for_def)

section \<open>Routing\<close>

lemma status_do_GET:
  assumes "wfile self = []"
  shows "\<exists>r. do_GET self = Some r \<and>
           status_codes (wfile r) =
             [if path self \<in>
                   {''/'', ''/image.png'', ''/image.jpg'', ''/document.pdf'', ''/archive.zip''}
              then 200 else 404]"
  using assms by (simp add: do_GET_run wfile_reply)

text \<open>
  C7. Routing is string equality on exactly five paths: a GET is answered with 200 if and
  only if its path is, character for character, one of /, /image.png, /image.jpg,
  /document.pdf and /archive.zip, and with 404 otherwise. In particular an entry with a
  query string or a trailing slash appended matches nothing.
\<close>

theorem routing_by_equality:
  assumes "wfile self = []"
  shows "\<exists>r. do_GET self = Some r \<and>
           (status_codes (wfile r) = [200] \<longleftrightarrow>
              path self \<in>
                {''/'', ''/image.png'', ''/image.jpg'', ''/document.pdf'', ''/archive.zip''}) \<and>
           (status_codes (wfile r) = [404] \<longleftrightarrow>
              path self \<notin>
                {''/'', ''/image.png'', ''/image.jpg'', ''/document.pdf'', ''/archive.zip''}) \<and>
           (\<forall>p \<in> {''/'', ''/image.png'', ''/image.jpg'', ''/document.pdf'', ''/archive.zip''}.
              \<forall>q. path self = p @ ''?'' @ q \<or> path self = p @ ''/'' \<longrightarrow>
                status_codes (wfile r) = [404])"
proof -
  from status_do_GET [OF assms] obtain r where r: "do_GET self = Some r"
    and s: "status_codes (wfile r) =
             [if path self \<in>
                   {''/'', ''/image.png'', ''/image.jpg'', ''/document.pdf'', ''/archive.zip''}
              then 200 else 404]"
    by blast
  have "path self \<notin>
          {''/'', ''/image.png'', ''/image.jpg'', ''/document.pdf'', ''/archive.zip''}"
    if "p \<in> {''/'', ''/image.png'', ''/image.jpg'', ''/document.pdf'', ''/archive.zip''}"
      and "path self = p @ ''?'' @ q \<or> path self = p @ ''/''" for p q
    using that by auto
  with r s show ?thesis
    by auto
qed

theorem routing_by_equality_witness:
  "wfile (request_for ''/image.png?size=1'') = [] \<and>
   (\<exists>r. do_GET (request_for ''/image.png?size=1'') = Some r \<and>
           (status_codes (wfile r) = [200] \<longleftrightarrow>
              path (request_for ''/image.png?size=1'') \<in>
                {''/'', ''/image.png'', ''/image.jpg'', ''/document.pdf'', ''/archive.zip''}) \<and>
           (status_codes (wfile r) = [404] \<longleftrightarrow>
              path (request_for ''/image.png?size=1'') \<notin>
                {''/'', ''/image.png'', ''/image.jpg'', ''/document.pdf'', ''/archive.zip''}) \<and>
           (\<forall>p \<in> {''/'', ''/image.png'', ''/image.jpg'', ''/document.pdf'', ''/archive.zip''}.
              \<forall>q. path (request_for ''/image.png?size=1'') = p @ ''?'' @ q \<or>
                  path (request_for ''/image.png?size=1'') = p @ ''/'' \<longrightarrow>
                status_codes (wfile r) = [404])) \<and>
   ''/image.png'' \<in> {''/'', ''/image.png'', ''/image.jpg'', ''/document.pdf'', ''/archive.zip''} \<and>
   path (request_for ''/image.png?size=1'') = ''/image.png'' @ ''?'' @ ''size=1'' \<and>
   (\<exists>r. do_GET (request_for ''/image.png?size=1'') = Some r \<and>
          status_codes (wfile r) = [404])"
proof -
  have w: "wfile (request_for ''/image.png?size=1'') = []"
    by (simp add: request_for_def)
  have p: "path (request_for ''/image.png?size=1'') = ''/image.png'' @ ''?'' @ ''size=1''"
    by (simp add: request_for_def)
  from routing_by_equality [OF w] obtain r
    where r: "do_GET (request_for ''/image.png?size=1'') = Some r"
      and a: "status_codes (wfile r) = [200] \<longleftrightarrow>
              path (request_for ''/image.png?size=1'') \<in>
                {''/'', ''/image.png'', ''/image.jpg'', ''/document.pdf'', ''/archive.zip''}"
      and b: "status_codes (wfile r) = [404] \<longleftrightarrow>
              path (request_for ''/image.png?size=1'') \<notin>
                {''/'', ''/image.png'', ''/image.jpg'', ''/document.pdf'', ''/archive.zip''}"
      and c: "\<forall>p \<in> {''/'', ''/image.png'', ''/image.jpg'', ''/document.pdf'', ''/archive.zip''}.
              \<forall>q. path (request_for ''/image.png?size=1'') = p @ ''?'' @ q \<or>
                  path (request_for ''/image.png?size=1'') = p @ ''/'' \<longrightarrow>
                status_codes (wfile r) = [404]"
    by blast
  have m: "''/image.png'' \<in>
      {''/'', ''/image.png'', ''/image.jpg'', ''/document.pdf'', ''/archive.zip''}"
    by simp
  from c m p have "status_codes (wfile r) = [404]"
    by blast
  with w p m r a b c show ?thesis
    by blast
qed

section \<open>Logging\<close>

lemma newline_str_nat_200: "CHR ''\<newline>'' \<notin> set (str_nat 200)"
  by (simp add: str_nat_200)

lemma newline_str_nat_404: "CHR ''\<newline>'' \<notin> set (str_nat 404)"
  by (simp add: str_nat_404)

lemma stdout_do_GET:
  "\<exists>r. do_GET self = Some r \<and>
     (stdout r = stdout self @ log_line self 200 @ [CHR ''\<newline>''] \<or>
      stdout r = stdout self @ log_line self 404 @ [CHR ''\<newline>''])"
  by (simp add: do_GET_run stdout_reply)

lemma log_line_one_line:
  assumes "CHR ''\<newline>'' \<notin> set (log_date_time_string self)"
    and "CHR ''\<newline>'' \<notin> set (requestline self)"
    and "CHR ''\<newline>'' \<notin> set (str_nat code)"
  shows "CHR ''\<newline>'' \<notin> set (log_line self code)"
  using assms by (simp add: log_line_def)

lemma log_line_has_timestamp: "sublist (log_date_time_string self) (log_line self code)"
  unfolding sublist_def log_line_def by blast

lemma log_line_has_requestline: "sublist (requestline self) (log_line self code)"
proof -
  have \<open>log_line self code =
      (''['' @ log_date_time_string self @ ''] "'') @ requestline self @
      (''" '' @ str_nat code @ '' -'')\<close>
    by (simp add: log_line_def)
  then show ?thesis
    unfolding sublist_def by blast
qed

text \<open>
  C8. A request handled by \<^verbatim>\<open>do_GET\<close> adds exactly one line to standard output: the text
  printed is one line, ended by a line feed, and the timestamp and the request line of
  the request occur in it. (The timestamp and the request line hold no line feed of
  their own: the library formats the first and strips the line end off the second.)
\<close>

theorem one_log_line:
  assumes "CHR ''\<newline>'' \<notin> set (log_date_time_string self)"
    and "CHR ''\<newline>'' \<notin> set (requestline self)"
  shows "\<exists>r line. do_GET self = Some r \<and>
           stdout r = stdout self @ line @ [CHR ''\<newline>''] \<and>
           CHR ''\<newline>'' \<notin> set line \<and>
           sublist (log_date_time_string self) line \<and>
           sublist (requestline self) line"
proof -
  from stdout_do_GET [of self] obtain r code where r: "do_GET self = Some r"
    and c: "code = 200 \<or> code = 404"
    and out: "stdout r = stdout self @ log_line self code @ [CHR ''\<newline>'']"
    by blast
  from c have "CHR ''\<newline>'' \<notin> set (str_nat code)"
    using newline_str_nat_200 newline_str_nat_404 by blast
  with assms have "CHR ''\<newline>'' \<notin> set (log_line self code)"
    by (rule log_line_one_line)
  with r out log_line_has_timestamp [of self code] log_line_has_requestline [of self code]
  show ?thesis
    by blast
qed

theorem one_log_line_witness:
  "CHR ''\<newline>'' \<notin> set (log_date_time_string (request_for ''/image.jpg'')) \<and>
   CHR ''\<newline>'' \<notin> set (requestline (request_for ''/image.jpg'')) \<and>
   (\<exists>r line. do_GET (request_for ''/image.jpg'') = Some r \<and>
           stdout r = stdout (request_for ''/image.jpg'') @ line @ [CHR ''\<newline>''] \<and>
           CHR ''\<newline>'' \<notin> set line \<and>
           sublist (log_date_time_string (request_for ''/image.jpg'')) line \<and>
           sublist (requestline (request_for ''/image.jpg'')) line)"
proof -
  have a: "CHR ''\<newline>'' \<notin> set (log_date_time_string (request_for ''/image.jpg''))"
    by (simp add: request_for_def)
  have b: "CHR ''\<newline>'' \<notin> set (requestline (request_for ''/image.jpg''))"
    by (simp add: request_for_def)
  from a b one_log_line [OF a b] show ?thesis
    by blast
qed

section \<open>Content-Length\<close>

text \<open>
  C10. A Content-Length header is sent if and only if the status is 200. Each reply with
  status 200 carries exactly one, whose value is the decimal length of the body; the 404
  reply carries its 13-byte body with no Content-Length header.
\<close>

theorem content_length_iff_200:
  assumes "wfile self = []"
  shows "\<exists>r. do_GET self = Some r \<and>
           (header_values ''Content-Length'' (wfile r) \<noteq> [] \<longleftrightarrow>
              status_codes (wfile r) = [200]) \<and>
           (status_codes (wfile r) = [200] \<longrightarrow>
              header_values ''Content-Length'' (wfile r) =
                [str_nat (length (body_bytes (wfile r)))] \<and>
              map int_str (header_values ''Content-Length'' (wfile r)) =
                [length (body_bytes (wfile r))]) \<and>
           (status_codes (wfile r) \<noteq> [200] \<longrightarrow>
              status_codes (wfile r) = [404] \<and>
              header_values ''Content-Length'' (wfile r) = [] \<and>
              body_bytes (wfile r) = bytes_lit ''404 Not Found'')"
  using assms by (simp add: do_GET_run wfile_reply int_str_str_nat)

theorem content_length_iff_200_witness:
  "wfile (request_for ''/nonexistent'') = [] \<and>
   (\<exists>r. do_GET (request_for ''/nonexistent'') = Some r \<and>
           (header_values ''Content-Length'' (wfile r) \<noteq> [] \<longleftrightarrow>
              status_codes (wfile r) = [200]) \<and>
           (status_codes (wfile r) = [200] \<longrightarrow>
              header_values ''Content-Length'' (wfile r) =
                [str_nat (length (body_bytes (wfile r)))] \<and>
              map int_str (header_values ''Content-Length'' (wfile r)) =
                [length (body_bytes (wfile r))]) \<and>
           (status_codes (wfile r) \<noteq> [200] \<longrightarrow>
              status_codes (wfile r) = [404] \<and>
              header_values ''Content-Length'' (wfile r) = [] \<and>
              body_bytes (wfile r) = bytes_lit ''404 Not Found'')) \<and>
   (\<exists>r. do_GET (request_for ''/nonexistent'') = Some r \<and>
          status_codes (wfile r) \<noteq> [200] \<and>
          header_values ''Content-Length'' (wfile r) = [])"
proof -
  have w: "wfile (request_for ''/nonexistent'') = []"
    by (simp add: request_for_def)
  have n: "\<exists>r. do_GET (request_for ''/nonexistent'') = Some r \<and>
          status_codes (wfile r) \<noteq> [200] \<and>
          header_values ''Content-Length'' (wfile r) = []"
    by (simp add: do_GET_run wfile_reply request_for_def)
  from w n content_length_iff_200 [OF w] show ?thesis
    by blast
qed

end
